theory Spec2Isabelle
  imports Complex_Main
begin

section \<open>Strings\<close>

text \<open>
  Python's \<^verbatim>\<open>str\<close> is a sequence of code points. A \<^typ>\<open>string\<close> here is a list
  of \<^typ>\<open>char\<close>, and a \<^typ>\<open>char\<close> stands for a code point from 0 to 255 (the Latin-1
  range); text with larger code points is not covered by these definitions.

  \<^verbatim>\<open>str.strip()\<close> removes leading and trailing characters for which
  \<^verbatim>\<open>str.isspace()\<close> holds. In the range 0 to 255 these are the code points
  9 to 13, 28 to 32, 133 and 160.

  \<^verbatim>\<open>str.lower()\<close> maps \<^verbatim>\<open>A\<close> to \<^verbatim>\<open>Z\<close> (65 to 90) and the capital
  letters 192 to 222, the multiplication sign 215 excepted, to the code point 32 higher,
  and leaves every other code point of the range as it is.
\<close>

definition isspace :: "char \<Rightarrow> bool" where
  "isspace c =
     (let n = (of_char c :: nat)
      in (9 \<le> n \<and> n \<le> 13) \<or> (28 \<le> n \<and> n \<le> 32) \<or> n = 133 \<or> n = 160)"

definition strip :: "string \<Rightarrow> string" where
  "strip s = rev (dropWhile isspace (rev (dropWhile isspace s)))"

definition lower_char :: "char \<Rightarrow> char" where
  "lower_char c =
     (let n = (of_char c :: nat)
      in if (65 \<le> n \<and> n \<le> 90) \<or> (192 \<le> n \<and> n \<le> 222 \<and> n \<noteq> 215)
         then char_of (n + 32) else c)"

definition lower :: "string \<Rightarrow> string" where
  "lower s = map lower_char s"

text \<open>
  The format specification \<^verbatim>\<open>04d\<close> of an f-string: the decimal digits of the
  integer, padded with zeros on the left to a width of at least four characters; the
  sign of a negative number comes first and counts towards the width.
\<close>

definition digit_char :: "nat \<Rightarrow> char" where
  "digit_char d = char_of (48 + d)"

fun digits :: "nat \<Rightarrow> string" where
  "digits n = (if n < 10 then [digit_char n] else digits (n div 10) @ [digit_char (n mod 10)])"

declare digits.simps [simp del]

definition zfill :: "nat \<Rightarrow> string \<Rightarrow> string" where
  "zfill w s = replicate (w - length s) (CHR ''0'') @ s"

definition fmt_04d :: "int \<Rightarrow> string" where
  "fmt_04d i =
     (if i < 0 then CHR ''-'' # zfill 3 (digits (nat (- i))) else zfill 4 (digits (nat i)))"

section \<open>Data model\<close>

text \<open>
  An account and a transaction are Python dictionaries with a fixed set of keys; they
  are records here. Amounts are Python floats in the source; they are modelled by
  \<^typ>\<open>real\<close>, so addition, subtraction and comparison are the exact ones.
  The key \<^verbatim>\<open>id\<close> is the field \<open>acct_id\<close>, and the keys of a transaction carry
  the prefix \<open>txn_\<close>. The status of a transaction is \<^verbatim>\<open>None\<close> until one of the
  branches of \<open>validate_transaction\<close> sets it. The float values \<^verbatim>\<open>nan\<close> and
  \<^verbatim>\<open>inf\<close> and the rounding of float arithmetic are outside this model.

  Every account has all six keys, as the accounts that \<open>create_an_account\<close> builds do;
  so the default of \<^verbatim>\<open>a.get("email", "")\<close> is never taken, and an account, being a
  non-empty dictionary, counts as true in \<^verbatim>\<open>if not acct\<close> and
  \<^verbatim>\<open>if get_account_by_email(e)\<close>.
\<close>

record txn =
  txn_type :: string
  txn_amount :: real
  txn_status :: "string option"
  txn_date :: string

record account =
  name :: string
  email :: string
  acct_id :: int
  balance :: real
  card_number :: "string option"
  transactions :: "txn list"

section \<open>Data layer\<close>

text \<open>
  A JSON value as \<^verbatim>\<open>json.load\<close> returns it, and what \<^verbatim>\<open>json.dump\<close> writes for
  the account collection.
\<close>

datatype json =
    JNull
  | JBool bool
  | JInt int
  | JFloat real
  | JStr string
  | JList "json list"
  | JDict "(string \<times> json) list"

definition txn_to_json :: "txn \<Rightarrow> json" where
  "txn_to_json t =
     JDict [(''type'', JStr (txn_type t)),
            (''amount'', JFloat (txn_amount t)),
            (''status'', (case txn_status t of None \<Rightarrow> JNull | Some st \<Rightarrow> JStr st)),
            (''date'', JStr (txn_date t))]"

definition account_to_json :: "account \<Rightarrow> json" where
  "account_to_json a =
     JDict [(''name'', JStr (name a)),
            (''email'', JStr (email a)),
            (''id'', JInt (acct_id a)),
            (''balance'', JFloat (balance a)),
            (''card_number'', (case card_number a of None \<Rightarrow> JNull | Some c \<Rightarrow> JStr c)),
            (''transactions'', JList (map txn_to_json (transactions a)))]"

text \<open>
  The condition of the file \<^verbatim>\<open>database.json\<close>: it does not exist, it exists and
  cannot be opened or read, its contents are not JSON, or its contents parse to a JSON
  value.
\<close>

datatype file_condition = Absent | Unreadable | Unparseable | Parsed json

datatype py_exception = FileNotFoundError | PermissionError | JSONDecodeError

text \<open>The body of the \<^verbatim>\<open>try\<close> block up to \<^verbatim>\<open>json.load\<close>.\<close>

fun open_and_load :: "file_condition \<Rightarrow> py_exception + json" where
  "open_and_load Absent = Inl FileNotFoundError"
| "open_and_load Unreadable = Inl PermissionError"
| "open_and_load Unparseable = Inl JSONDecodeError"
| "open_and_load (Parsed data) = Inr data"

text \<open>
  \<open>load_data\<close>: the result is \<open>Inl\<close> for an exception that reaches the caller and
  \<open>Inr\<close> for a returned list. The handler \<^verbatim>\<open>except Exception\<close> returns the empty
  list.
\<close>

definition load_data :: "file_condition \<Rightarrow> py_exception + json list" where
  "load_data f =
     (case open_and_load f of
        Inl e \<Rightarrow> Inr []
      | Inr data \<Rightarrow> (case data of JList xs \<Rightarrow> Inr xs | _ \<Rightarrow> Inr []))"

text \<open>
  The state of the program: the module-level list \<^verbatim>\<open>accounts\<close> and the file.
  \<open>save_data\<close> overwrites the file with the serialised list; writing is taken to
  succeed.
\<close>

record state =
  accounts :: "account list"
  data_file :: file_condition

definition save_data :: "state \<Rightarrow> state" where
  "save_data s = s\<lparr>data_file := Parsed (JList (map account_to_json (accounts s)))\<rparr>"

section \<open>Business logic\<close>

definition ALLOWED_EXPENSES :: "string set" where
  "ALLOWED_EXPENSES =
     {''doctor'', ''prescription'', ''dental'', ''vision'', ''therapy'', ''lab''}"

fun get_account :: "account list \<Rightarrow> int \<Rightarrow> account option" where
  "get_account [] aid = None"
| "get_account (a # as) aid = (if acct_id a = aid then Some a else get_account as aid)"

fun get_account_by_email :: "account list \<Rightarrow> string \<Rightarrow> account option" where
  "get_account_by_email [] em = None"
| "get_account_by_email (a # as) em =
     (if lower (strip (email a)) = lower (strip em) then Some a
      else get_account_by_email as em)"

text \<open>
  \<open>get_account\<close> returns a reference to a dictionary of the list, and the callers
  assign to its keys. \<open>update_account aid f\<close> is that assignment: it replaces the first
  account whose id is \<open>aid\<close>, the one \<open>get_account\<close> returns, by its image under \<open>f\<close>.
\<close>

fun update_account :: "int \<Rightarrow> (account \<Rightarrow> account) \<Rightarrow> account list \<Rightarrow> account list" where
  "update_account aid f [] = []"
| "update_account aid f (a # as) =
     (if acct_id a = aid then f a # as else a # update_account aid f as)"

text \<open>
  \<open>write_back account_id acct' s\<close>: the dictionary found under \<open>account_id\<close> now
  holds \<open>acct'\<close>, and \<open>save_data\<close> has run.
\<close>

definition write_back :: "int \<Rightarrow> account \<Rightarrow> state \<Rightarrow> state" where
  "write_back account_id acct' s =
     save_data (s\<lparr>accounts := update_account account_id (\<lambda>_. acct') (accounts s)\<rparr>)"

definition create_an_account :: "string \<Rightarrow> string \<Rightarrow> state \<Rightarrow> account option \<times> state" where
  "create_an_account nm em s =
     (let n = strip nm;
          e = lower (strip em)
      in case get_account_by_email (accounts s) e of
           Some _ \<Rightarrow> (None, s)
         | None \<Rightarrow>
             (let new_id = int (length (accounts s)) + 1;
                  new_account = \<lparr>name = n, email = e, acct_id = new_id, balance = 0,
                                 card_number = None, transactions = []\<rparr>
              in (Some new_account, save_data (s\<lparr>accounts := accounts s @ [new_account]\<rparr>))))"




text \<open>
  \<open>validate_transaction\<close> reads the clock; the formatted time is the argument \<open>now\<close>.
\<close>

definition validate_transaction ::
  "string \<Rightarrow> int \<Rightarrow> real \<Rightarrow> string \<Rightarrow> state \<Rightarrow> string \<times> state" where
  "validate_transaction now account_id amount etype s =
     (case get_account (accounts s) account_id of
        None \<Rightarrow> (''denied'', s)
      | Some acct \<Rightarrow>
          (let txn = \<lparr>txn_type = etype, txn_amount = amount, txn_status = None,
                      txn_date = now\<rparr>
           in if lower (strip etype) \<notin> ALLOWED_EXPENSES then
                (''denied'',
                 write_back account_id
                   (acct\<lparr>transactions :=
                      transactions acct @ [txn\<lparr>txn_status := Some ''denied''\<rparr>]\<rparr>) s)
              else if amount > balance acct then
                (''denied'',
                 write_back account_id
                   (acct\<lparr>transactions :=
                      transactions acct @ [txn\<lparr>txn_status := Some ''denied''\<rparr>]\<rparr>) s)
              else
                (''approved'',
                 write_back account_id
                   (acct\<lparr>transactions :=
                      transactions acct @ [txn\<lparr>txn_status := Some ''approved''\<rparr>],
                    balance := balance acct - amount\<rparr>) s)))"

section \<open>Sequences of calls\<close>






section \<open>Notions used in the statements\<close>





definition alice :: account where
  "alice = \<lparr>name = ''Alice'', email = ''alice@x.com'', acct_id = 1, balance = 100,
            card_number = None, transactions = []\<rparr>"

definition ledger :: state where
  "ledger = save_data \<lparr>accounts = [alice], data_file = Absent\<rparr>"

section \<open>Properties of the string functions\<close>

lemma isspace_lower_char: "isspace (lower_char c) = isspace c"
  by (simp add: isspace_def lower_char_def Let_def)

lemma lower_char_idem: "lower_char (lower_char c) = lower_char c"
  by (simp add: lower_char_def Let_def)

lemma lower_idem: "lower (lower s) = lower s"
  by (simp add: lower_def lower_char_idem)

lemma dropWhile_isspace_lower: "dropWhile isspace (lower s) = lower (dropWhile isspace s)"
  by (simp add: lower_def dropWhile_map comp_def isspace_lower_char)

lemma rev_lower: "rev (lower s) = lower (rev s)"
  by (simp add: lower_def rev_map)

lemma strip_lower: "strip (lower s) = lower (strip s)"
  by (simp add: strip_def dropWhile_isspace_lower rev_lower)

lemma dropWhile_rev_dropWhile:
  assumes "xs = [] \<or> \<not> P (hd xs)"
  shows "dropWhile P (rev (dropWhile P (rev xs))) = rev (dropWhile P (rev xs))"
proof (cases xs)
  case Nil
  then show ?thesis by simp
next
  case (Cons x xs')
  with assms have nP: "\<not> P x" by simp
  have "dropWhile P (rev xs) = dropWhile P (rev xs') @ [x]"
    using Cons nP by (simp add: dropWhile_append3)
  then show ?thesis using nP by simp
qed

lemma strip_idem: "strip (strip s) = strip s"
proof -
  have "dropWhile isspace s = [] \<or> \<not> isspace (hd (dropWhile isspace s))"
    using hd_dropWhile [of isspace s] by blast
  then show ?thesis
    by (simp add: strip_def dropWhile_rev_dropWhile)
qed

text \<open>Trimming and lowercasing a string that is already trimmed and lowercased.\<close>

lemma normalize_idem: "lower (strip (lower (strip s))) = lower (strip s)"
  by (simp add: strip_lower strip_idem lower_idem)

section \<open>Properties of the lookups\<close>

lemma get_account_by_email_None:
  "get_account_by_email accts em = None \<longleftrightarrow>
     (\<forall>a \<in> set accts. lower (strip (email a)) \<noteq> lower (strip em))"
  by (induction accts) auto








section \<open>Facts about the example states\<close>


lemma accounts_ledger: "accounts ledger = [alice]"
  by (simp add: ledger_def save_data_def)





section \<open>The branches of \<open>validate_transaction\<close>\<close>



lemma validate_transaction_insufficient:
  assumes "get_account (accounts s) account_id = Some acct"
    and "balance acct < amount"
  shows "validate_transaction now account_id amount etype s =
           (''denied'',
            write_back account_id
              (acct\<lparr>transactions := transactions acct @
                      [\<lparr>txn_type = etype, txn_amount = amount,
                        txn_status = Some ''denied'', txn_date = now\<rparr>]\<rparr>) s)"
  using assms by (simp add: validate_transaction_def Let_def)

section \<open>Transactions\<close>










section \<open>Deposits\<close>



section \<open>Creation of accounts\<close>

lemma bob_email: "lower (strip '' Bob@X.com '') = ''bob@x.com''"
  by code_simp

lemma alice_email: "lower (strip (email alice)) = ''alice@x.com''"
  unfolding alice_def by code_simp

lemma strip_bob: "strip '' Bob '' = ''Bob''"
  by code_simp

lemma bob_emails: "lower (strip ''Bob@X.com'') = lower (strip '' bob@x.COM '')"
  by code_simp

text \<open>
  Claim C5. When the trimmed and lowercased email differs from the trimmed and
  lowercased email of every account of the list, \<open>create_an_account\<close> returns a new
  account whose id is the length of the list plus one, with balance 0, no card number
  and no transaction, with the name trimmed and the email trimmed and lowercased; the
  new list is the old one with that account appended.
\<close>

theorem create_an_account_new_email:
  assumes "\<forall>a \<in> set (accounts s). lower (strip (email a)) \<noteq> lower (strip em)"
  shows "fst (create_an_account nm em s) =
           Some \<lparr>name = strip nm, email = lower (strip em),
                 acct_id = int (length (accounts s)) + 1, balance = 0,
                 card_number = None, transactions = []\<rparr> \<and>
         accounts (snd (create_an_account nm em s)) =
           accounts s @
           [\<lparr>name = strip nm, email = lower (strip em),
             acct_id = int (length (accounts s)) + 1, balance = 0,
             card_number = None, transactions = []\<rparr>]"
proof -
  have "get_account_by_email (accounts s) (lower (strip em)) = None"
    using assms by (simp add: get_account_by_email_None normalize_idem)
  then show ?thesis
    by (simp add: create_an_account_def Let_def save_data_def)
qed

theorem create_an_account_new_email_witness:
  "accounts ledger = [alice] \<and>
   lower (strip (email alice)) \<noteq> lower (strip '' Bob@X.com '') \<and>
   fst (create_an_account '' Bob '' '' Bob@X.com '' ledger) =
     Some \<lparr>name = ''Bob'', email = ''bob@x.com'', acct_id = 2, balance = 0,
           card_number = None, transactions = []\<rparr> \<and>
   accounts (snd (create_an_account '' Bob '' '' Bob@X.com '' ledger)) =
     [alice, \<lparr>name = ''Bob'', email = ''bob@x.com'', acct_id = 2, balance = 0,
              card_number = None, transactions = []\<rparr>]"
proof -
  have new: "\<forall>a \<in> set (accounts ledger).
      lower (strip (email a)) \<noteq> lower (strip '' Bob@X.com '')"
    by (simp add: accounts_ledger alice_email bob_email)
  show ?thesis
    using create_an_account_new_email [OF new, of "'' Bob ''"]
    by (simp add: accounts_ledger alice_email bob_email strip_bob)
qed

text \<open>
  Claim C6. Two calls of \<open>create_an_account\<close> in a row with emails that are equal after
  trimming and lowercasing: the second call returns \<^verbatim>\<open>None\<close> and leaves the state,
  and so the number of accounts, as the first call left it. When the email was not in
  use before, the first call returns an account and the list grows by one.
\<close>

theorem create_an_account_twice:
  assumes "lower (strip em1) = lower (strip em2)"
  shows "create_an_account nm2 em2 (snd (create_an_account nm1 em1 s)) =
           (None, snd (create_an_account nm1 em1 s)) \<and>
         length (accounts (snd (create_an_account nm2 em2 (snd (create_an_account nm1 em1 s))))) =
           length (accounts (snd (create_an_account nm1 em1 s))) \<and>
         ((\<forall>a \<in> set (accounts s). lower (strip (email a)) \<noteq> lower (strip em1)) \<longrightarrow>
            fst (create_an_account nm1 em1 s) \<noteq> None \<and>
            length (accounts (snd (create_an_account nm1 em1 s))) = Suc (length (accounts s)))"
proof -
  let ?s1 = "snd (create_an_account nm1 em1 s)"
  have "get_account_by_email (accounts ?s1) (lower (strip em2)) \<noteq> None"
  proof (cases "get_account_by_email (accounts s) (lower (strip em1))")
    case None
    then have "accounts ?s1 = accounts s @
        [\<lparr>name = strip nm1, email = lower (strip em1),
          acct_id = int (length (accounts s)) + 1, balance = 0,
          card_number = None, transactions = []\<rparr>]"
      by (simp add: create_an_account_def Let_def save_data_def)
    then show ?thesis
      using assms by (simp add: get_account_by_email_None normalize_idem)
  next
    case (Some a)
    then have "?s1 = s"
      by (simp add: create_an_account_def Let_def)
    then show ?thesis
      using Some assms by simp
  qed
  then have second: "create_an_account nm2 em2 ?s1 = (None, ?s1)"
    by (auto simp: create_an_account_def Let_def)
  have "fst (create_an_account nm1 em1 s) \<noteq> None \<and>
        length (accounts ?s1) = Suc (length (accounts s))"
    if "\<forall>a \<in> set (accounts s). lower (strip (email a)) \<noteq> lower (strip em1)"
  proof -
    have "get_account_by_email (accounts s) (lower (strip em1)) = None"
      using that by (simp add: get_account_by_email_None normalize_idem)
    then show ?thesis
      by (simp add: create_an_account_def Let_def save_data_def)
  qed
  with second show ?thesis by simp
qed

theorem create_an_account_twice_witness:
  "lower (strip ''Bob@X.com'') = lower (strip '' bob@x.COM '') \<and>
   accounts ledger = [alice] \<and>
   lower (strip (email alice)) \<noteq> lower (strip ''Bob@X.com'') \<and>
   fst (create_an_account ''Bob'' ''Bob@X.com'' ledger) \<noteq> None \<and>
   fst (create_an_account ''Robert'' '' bob@x.COM ''
         (snd (create_an_account ''Bob'' ''Bob@X.com'' ledger))) = None \<and>
   length (accounts (snd (create_an_account ''Robert'' '' bob@x.COM ''
         (snd (create_an_account ''Bob'' ''Bob@X.com'' ledger))))) = 2"
proof -
  have bob: "lower (strip ''Bob@X.com'') = ''bob@x.com''"
    by code_simp
  have new: "\<forall>a \<in> set (accounts ledger).
      lower (strip (email a)) \<noteq> lower (strip ''Bob@X.com'')"
    by (simp add: accounts_ledger alice_email bob)
  show ?thesis
    using new create_an_account_twice [OF bob_emails, of "''Robert''" "''Bob''" ledger]
    by (simp add: bob_emails accounts_ledger alice_email bob)
qed

section \<open>Card numbers\<close>














text \<open>For a negative integer the sign takes one of the four places.\<close>

lemma fmt_04d_minus_1: "fmt_04d (- 1) = ''-001''"
  by code_simp



section \<open>Loading\<close>

text \<open>
  Claim C9. \<open>load_data\<close> returns a list for every condition of the file and raises
  nothing: the empty list when the file is absent, unreadable or not parseable, or when
  the parsed value is not a list, and the parsed list when it is one. A non-empty result
  is the parsed top-level list.
\<close>

theorem load_data_never_raises:
  "(\<exists>xs. load_data f = Inr xs) \<and>
   load_data Absent = Inr [] \<and> load_data Unreadable = Inr [] \<and>
   load_data Unparseable = Inr [] \<and>
   ((\<forall>xs. j \<noteq> JList xs) \<longrightarrow> load_data (Parsed j) = Inr []) \<and>
   load_data (Parsed (JList ys)) = Inr ys \<and>
   (load_data f = Inr zs \<longrightarrow> zs \<noteq> [] \<longrightarrow> f = Parsed (JList zs))"
proof -
  have "(\<exists>xs. load_data f = Inr xs) \<and>
        (load_data f = Inr zs \<longrightarrow> zs \<noteq> [] \<longrightarrow> f = Parsed (JList zs))"
  proof (cases f)
    case (Parsed d)
    then show ?thesis
      by (cases d) (auto simp: load_data_def)
  qed (simp_all add: load_data_def)
  moreover have "(\<forall>xs. j \<noteq> JList xs) \<longrightarrow> load_data (Parsed j) = Inr []"
    by (cases j) (simp_all add: load_data_def)
  ultimately show ?thesis
    by (simp add: load_data_def)
qed

theorem load_data_never_raises_witness:
  "(\<forall>xs. JDict [(''id'', JInt 1)] \<noteq> JList xs) \<and>
   load_data (Parsed (JDict [(''id'', JInt 1)])) = Inr [] \<and>
   load_data (Parsed (JList [JInt 1, JNull])) = Inr [JInt 1, JNull] \<and>
   [JInt 1, JNull] \<noteq> [] \<and>
   load_data Absent = Inr [] \<and> load_data Unreadable = Inr [] \<and>
   load_data Unparseable = Inr []"
  using load_data_never_raises
    [of "Parsed (JList [JInt 1, JNull])" "JDict [(''id'', JInt 1)]" "[JInt 1, JNull]"
      "[JInt 1, JNull]"]
  by simp


section \<open>Balances\<close>














end
